theory Spec2Isabelle
  imports Complex_Main "HOL-Library.Word"
begin

section \<open>JavaScript values\<close>

text \<open>
  A JavaScript number is NaN, one of the two infinities, or a finite value. Finite
  doubles are rationals; no property below depends on rounding, only on the class of
  the number and on its sign.
\<close>

datatype number = NaN | PosInfinity | NegInfinity | Finite rat

text \<open>
  The values that reach the functions below: primitives, arrays, plain objects (an
  ordered list of own properties), functions (by name), error objects (the
  constructor's name and the message) and abort signals (aborted or not).
\<close>

datatype val =
    JUndefined
  | JNull
  | JBoolean bool
  | JNumber number
  | JString string
  | JArray "val list"
  | JObject "(string \<times> val) list"
  | JFunction string
  | JError string string
  | JAbortSignal bool



text \<open>The \<^verbatim>\<open>typeof\<close> operator.\<close>

fun typeof :: "val \<Rightarrow> string" where
  "typeof JUndefined = ''undefined''"
| "typeof JNull = ''object''"
| "typeof (JBoolean b) = ''boolean''"
| "typeof (JNumber n) = ''number''"
| "typeof (JString s) = ''string''"
| "typeof (JArray xs) = ''object''"
| "typeof (JObject ps) = ''object''"
| "typeof (JFunction f) = ''function''"
| "typeof (JError n m) = ''object''"
| "typeof (JAbortSignal a) = ''object''"

text \<open>\<^verbatim>\<open>a < b\<close> on numbers: every comparison with NaN is false.\<close>

fun number_less :: "number \<Rightarrow> number \<Rightarrow> bool" where
  "number_less NaN b = False"
| "number_less a NaN = False"
| "number_less PosInfinity b = False"
| "number_less NegInfinity NegInfinity = False"
| "number_less NegInfinity b = True"
| "number_less (Finite x) PosInfinity = True"
| "number_less (Finite x) NegInfinity = False"
| "number_less (Finite x) (Finite y) = (x < y)"

text \<open>\<^verbatim>\<open>Number.isNaN\<close> (the stub \<^verbatim>\<open>number-isnan\<close>) and \<^verbatim>\<open>Number.isFinite\<close>.\<close>

definition NumberIsNaN :: "val \<Rightarrow> bool" where
  "NumberIsNaN v = (v = JNumber NaN)"

fun NumberIsFinite :: "val \<Rightarrow> bool" where
  "NumberIsFinite (JNumber (Finite x)) = True"
| "NumberIsFinite v = False"

text \<open>\<^verbatim>\<open>v < 0\<close> for a value that is a number (the only place the source compares).\<close>

definition less_than_zero :: "val \<Rightarrow> bool" where
  "less_than_zero v = (case v of JNumber n \<Rightarrow> number_less n (Finite 0) | _ \<Rightarrow> False)"

text \<open>Property lookup \<^verbatim>\<open>o.k\<close>: the first own property of that name, else undefined.\<close>

fun Get :: "val \<Rightarrow> string \<Rightarrow> val" where
  "Get (JObject ps) k = (case map_of ps k of Some v \<Rightarrow> v | None \<Rightarrow> JUndefined)"
| "Get v k = JUndefined"


section \<open>abstract-ops/miscellaneous: IsNonNegativeNumber\<close>

text \<open>
  \<^verbatim>\<open>
  export function IsNonNegativeNumber(v: number): boolean {
    if (typeof v !== 'number') { return false; }
    if (NumberIsNaN(v)) { return false; }
    if (v < 0) { return false; }
    return true;
  }
  \<close>
\<close>

definition IsNonNegativeNumber :: "val \<Rightarrow> bool" where
  "IsNonNegativeNumber v =
     (if typeof v \<noteq> ''number'' then False
      else if NumberIsNaN v then False
      else if less_than_zero v then False
      else True)"

text \<open>
  The predicate in the words of the specification: a number that is not NaN, not less
  than zero, and finite.
\<close>

definition finite_non_negative_number :: "val \<Rightarrow> bool" where
  "finite_non_negative_number v =
     (typeof v = ''number'' \<and> \<not> NumberIsNaN v \<and> \<not> less_than_zero v \<and> NumberIsFinite v)"

section \<open>abstract-ops/ecmascript: array buffers\<close>

text \<open>
  An ArrayBuffer owns a data block until it is transferred; a transferred (detached)
  buffer has no data block and reports byte length 0.
\<close>

record ArrayBuffer =
  ArrayBufferData :: "8 word list option"

definition byteLength :: "ArrayBuffer \<Rightarrow> nat" where
  "byteLength O' = (case ArrayBufferData O' of None \<Rightarrow> 0 | Some bs \<Rightarrow> length bs)"

text \<open>
  \<^verbatim>\<open>
  export function IsDetachedBuffer(O: ArrayBufferLike): boolean {
    return O.byteLength === 0;
  }
  export function CanTransferArrayBuffer(O: ArrayBufferLike): boolean {
    return !IsDetachedBuffer(O);
  }
  \<close>
\<close>

definition IsDetachedBuffer :: "ArrayBuffer \<Rightarrow> bool" where
  "IsDetachedBuffer O' = (byteLength O' = 0)"

definition CanTransferArrayBuffer :: "ArrayBuffer \<Rightarrow> bool" where
  "CanTransferArrayBuffer O' = (\<not> IsDetachedBuffer O')"

text \<open>
  \<^verbatim>\<open>CreateArrayFromList(elements)\<close> is \<^verbatim>\<open>elements.slice()\<close>: a new array with the same
  elements in the same order.
\<close>

definition CreateArrayFromList :: "val list \<Rightarrow> val" where
  "CreateArrayFromList elements = JArray elements"

section \<open>Promises\<close>

text \<open>
  A promise is pending until it is settled, once, with a value or with a cause.
\<close>

datatype settlement = Pending | Fulfilled val | Rejected val

text \<open>
  Promises made with \<^verbatim>\<open>new Promise\<close> (by this library or by an underlying algorithm) are
  cells of a store, named by a number and settled through their resolve and reject
  functions. The other promises are built from those: already settled ones, and
  \<^verbatim>\<open>p.then(f)\<close> for a handler \<open>f\<close> that returns a plain value.
\<close>

datatype promise =
    PromiseCell nat
  | PromiseResolved val
  | PromiseRejected val
  | PromiseThen promise "val \<Rightarrow> val"

text \<open>
  The store: the state of every cell, and every call of a resolve or reject function in
  the order the calls were made (promise reactions run in that order).
\<close>

record heap =
  cells :: "nat \<Rightarrow> settlement"
  trace :: "(nat \<times> settlement) list"

text \<open>Calling a resolve or reject function: only the first call settles the cell.\<close>

definition settle :: "nat \<Rightarrow> settlement \<Rightarrow> heap \<Rightarrow> heap" where
  "settle p s h =
     h\<lparr>cells := (if cells h p = Pending then (cells h)(p := s) else cells h),
       trace := trace h @ [(p, s)]\<rparr>"

definition resolve_with :: "val \<Rightarrow> nat \<Rightarrow> heap \<Rightarrow> heap" where
  "resolve_with v p = settle p (Fulfilled v)"

definition reject_with :: "val \<Rightarrow> nat \<Rightarrow> heap \<Rightarrow> heap" where
  "reject_with e p = settle p (Rejected e)"

text \<open>The state of a promise, given the state of the cells.\<close>

primrec promise_state :: "(nat \<Rightarrow> settlement) \<Rightarrow> promise \<Rightarrow> settlement" where
  "promise_state c (PromiseCell n) = c n"
| "promise_state c (PromiseResolved v) = Fulfilled v"
| "promise_state c (PromiseRejected e) = Rejected e"
| "promise_state c (PromiseThen p f) =
     (case promise_state c p of
        Pending \<Rightarrow> Pending
      | Fulfilled v \<Rightarrow> Fulfilled (f v)
      | Rejected e \<Rightarrow> Rejected e)"

text \<open>
  Modelled from the spec: the helpers of \<^verbatim>\<open>helpers/webidl\<close> and \<^verbatim>\<open>utils\<close> are not among
  the sources. \<^verbatim>\<open>promiseResolvedWith(v)\<close> and \<^verbatim>\<open>promiseRejectedWith(e)\<close> are the results that
  "immediately fulfill" and "immediately reject" (4.4); \<^verbatim>\<open>transformPromiseWith(p, f)\<close> is
  the result that "resolves once that algorithm settles", a success reported through
  \<open>f\<close> and a failure passed on (4.4, 8); \<^verbatim>\<open>noop\<close> returns undefined.
\<close>

definition promiseResolvedWith :: "val \<Rightarrow> promise" where
  "promiseResolvedWith v = PromiseResolved v"

definition promiseRejectedWith :: "val \<Rightarrow> promise" where
  "promiseRejectedWith e = PromiseRejected e"

definition transformPromiseWith :: "promise \<Rightarrow> (val \<Rightarrow> val) \<Rightarrow> promise" where
  "transformPromiseWith p fulfillmentHandler = PromiseThen p fulfillmentHandler"

definition noop :: "val \<Rightarrow> val" where
  "noop v = JUndefined"

section \<open>readable-stream: the stream, its reader and its controller\<close>

datatype ReadableStreamState = readable | closed | errored

text \<open>
  A reader is a default reader, with its queue of pending read requests, or a zero-copy
  (BYOB) reader, with its queue of pending read-into requests. A request is the pair of
  settle functions of one promise: it is named by that promise's cell. Queues are in the
  order the requests were issued.
\<close>

datatype ReadableStreamReader =
    ReadableStreamDefaultReader (forAuthorCode: bool) (closedPromise: nat)
      (readRequests: "nat list")
  | ReadableStreamBYOBReader (forAuthorCode: bool) (closedPromise: nat)
      (readIntoRequests: "nat list")

text \<open>
  The brand check of a default reader (\<^verbatim>\<open>readable-stream/default-reader\<close>, not among the
  sources) tells the two kinds of reader apart.
\<close>

fun IsReadableStreamDefaultReader :: "ReadableStreamReader \<Rightarrow> bool" where
  "IsReadableStreamDefaultReader (ReadableStreamDefaultReader a c rs) = True"
| "IsReadableStreamDefaultReader (ReadableStreamBYOBReader a c rs) = False"

text \<open>
  The controller's internal methods \<^verbatim>\<open>[CancelSteps]\<close> and \<^verbatim>\<open>[PullSteps]\<close> are not among the
  sources. They are parameters: the promise each returns, and a record of every
  invocation (for a cancel, the reason and the state of the stream at the call).
\<close>

record ReadableStreamController =
  CancelSteps_result :: "val \<Rightarrow> promise"
  CancelSteps_calls :: "(val \<times> ReadableStreamState) list"
  PullSteps_result :: promise
  PullSteps_calls :: nat

record ReadableStream =
  state :: ReadableStreamState
  reader :: "ReadableStreamReader option"
  storedError :: val
  disturbed :: bool
  readableStreamController :: ReadableStreamController

definition CancelSteps :: "ReadableStream \<Rightarrow> val \<Rightarrow> promise \<times> ReadableStream" where
  "CancelSteps stream reason =
     (let controller = readableStreamController stream in
      (CancelSteps_result controller reason,
       stream\<lparr>readableStreamController :=
         controller\<lparr>CancelSteps_calls :=
           CancelSteps_calls controller @ [(reason, state stream)]\<rparr>\<rparr>))"

definition PullSteps :: "ReadableStream \<Rightarrow> promise \<times> ReadableStream" where
  "PullSteps stream =
     (let controller = readableStreamController stream in
      (PullSteps_result controller,
       stream\<lparr>readableStreamController :=
         controller\<lparr>PullSteps_calls := Suc (PullSteps_calls controller)\<rparr>\<rparr>))"

text \<open>
  Modelled from the spec: \<^verbatim>\<open>readable-stream/generic-reader\<close> is not among the sources.
  A read result is \<^verbatim>\<open>{ value, done }\<close> (6, 8); the reader's closed signal is "settled
  once when the owning stream closes (fulfilled) or errors (rejected)" (3).
\<close>

definition ReadableStreamCreateReadResult :: "val \<Rightarrow> bool \<Rightarrow> bool \<Rightarrow> val" where
  "ReadableStreamCreateReadResult v done' forAuthorCode' =
     JObject [(''value'', v), (''done'', JBoolean done')]"

definition defaultReaderClosedPromiseResolve :: "ReadableStreamReader \<Rightarrow> heap \<Rightarrow> heap" where
  "defaultReaderClosedPromiseResolve r h = resolve_with JUndefined (closedPromise r) h"

definition defaultReaderClosedPromiseReject ::
  "ReadableStreamReader \<Rightarrow> val \<Rightarrow> heap \<Rightarrow> heap" where
  "defaultReaderClosedPromiseReject r e h = reject_with e (closedPromise r) h"

text \<open>
  \<^verbatim>\<open>
  export function ReadableStreamClose<R>(stream: ReadableStream<R>): void {
    assert(stream._state === 'readable');
    stream._state = 'closed';
    const reader = stream._reader;
    if (reader === undefined) { return; }
    if (IsReadableStreamDefaultReader<R>(reader)) {
      reader._readRequests.forEach(readRequest => {
        readRequest._resolve(ReadableStreamCreateReadResult<R>(undefined, true, reader._forAuthorCode));
      });
      reader._readRequests = new SimpleQueue();
    }
    defaultReaderClosedPromiseResolve(reader);
  }
  \<close>
  The build strips every \<^verbatim>\<open>assert\<close> call (rollup.config.js), so an assertion is a
  precondition of the theorems, not a branch of the function.
\<close>

definition ReadableStreamClose :: "ReadableStream \<Rightarrow> heap \<Rightarrow> ReadableStream \<times> heap" where
  "ReadableStreamClose stream h =
     (let stream = stream\<lparr>state := closed\<rparr> in
      case reader stream of
        None \<Rightarrow> (stream, h)
      | Some r \<Rightarrow>
          if IsReadableStreamDefaultReader r then
            let h = fold (resolve_with
                      (ReadableStreamCreateReadResult JUndefined True (forAuthorCode r)))
                      (readRequests r) h;
                r = ReadableStreamDefaultReader (forAuthorCode r) (closedPromise r) []
            in (stream\<lparr>reader := Some r\<rparr>, defaultReaderClosedPromiseResolve r h)
          else (stream, defaultReaderClosedPromiseResolve r h))"

text \<open>
  \<^verbatim>\<open>
  export function ReadableStreamError<R>(stream: ReadableStream<R>, e: any): void {
    assert(IsReadableStream(stream) === true);
    assert(stream._state === 'readable');
    stream._state = 'errored';
    stream._storedError = e;
    const reader = stream._reader;
    if (reader === undefined) { return; }
    if (IsReadableStreamDefaultReader<R>(reader)) {
      reader._readRequests.forEach(readRequest => { readRequest._reject(e); });
      reader._readRequests = new SimpleQueue();
    } else {
      assert(IsReadableStreamBYOBReader(reader));
      reader._readIntoRequests.forEach(readIntoRequest => { readIntoRequest._reject(e); });
      reader._readIntoRequests = new SimpleQueue();
    }
    defaultReaderClosedPromiseReject(reader, e);
  }
  \<close>
\<close>

definition ReadableStreamError ::
  "ReadableStream \<Rightarrow> val \<Rightarrow> heap \<Rightarrow> ReadableStream \<times> heap" where
  "ReadableStreamError stream e h =
     (let stream = stream\<lparr>state := errored\<rparr>;
          stream = stream\<lparr>storedError := e\<rparr> in
      case reader stream of
        None \<Rightarrow> (stream, h)
      | Some r \<Rightarrow>
          if IsReadableStreamDefaultReader r then
            let h = fold (reject_with e) (readRequests r) h;
                r = ReadableStreamDefaultReader (forAuthorCode r) (closedPromise r) []
            in (stream\<lparr>reader := Some r\<rparr>, defaultReaderClosedPromiseReject r e h)
          else
            let h = fold (reject_with e) (readIntoRequests r) h;
                r = ReadableStreamBYOBReader (forAuthorCode r) (closedPromise r) []
            in (stream\<lparr>reader := Some r\<rparr>, defaultReaderClosedPromiseReject r e h))"

text \<open>
  \<^verbatim>\<open>
  export function ReadableStreamCancel<R>(stream: ReadableStream<R>, reason: any): Promise<void> {
    stream._disturbed = true;
    if (stream._state === 'closed') { return promiseResolvedWith(undefined); }
    if (stream._state === 'errored') { return promiseRejectedWith(stream._storedError); }
    ReadableStreamClose(stream);
    const sourceCancelPromise = stream._readableStreamController[CancelSteps](reason);
    return transformPromiseWith(sourceCancelPromise, noop);
  }
  \<close>
\<close>

definition ReadableStreamCancel ::
  "ReadableStream \<Rightarrow> val \<Rightarrow> heap \<Rightarrow> promise \<times> ReadableStream \<times> heap" where
  "ReadableStreamCancel stream reason h =
     (let stream = stream\<lparr>disturbed := True\<rparr> in
      if state stream = closed then (promiseResolvedWith JUndefined, stream, h)
      else if state stream = errored then (promiseRejectedWith (storedError stream), stream, h)
      else
        let (stream, h) = ReadableStreamClose stream h;
            (sourceCancelPromise, stream) = CancelSteps stream reason
        in (transformPromiseWith sourceCancelPromise noop, stream, h))"

text \<open>
  Modelled from the spec: \<^verbatim>\<open>ReadableStreamDefaultReaderRead\<close> (\<^verbatim>\<open>readable-stream/default-reader\<close>)
  is not among the sources. "Reading while closed immediately fulfills with an
  end-of-sequence marker; reading while errored immediately rejects with storedError"
  (4.4); the stream is disturbed "once any read was attempted" (3); a read of a readable
  stream is the controller's to answer.
\<close>

definition ReadableStreamDefaultReaderRead ::
  "ReadableStream \<Rightarrow> promise \<times> ReadableStream" where
  "ReadableStreamDefaultReaderRead stream =
     (let stream = stream\<lparr>disturbed := True\<rparr> in
      if state stream = closed then
        (promiseResolvedWith (ReadableStreamCreateReadResult JUndefined True
           (case reader stream of Some r \<Rightarrow> forAuthorCode r | None \<Rightarrow> False)), stream)
      else if state stream = errored then (promiseRejectedWith (storedError stream), stream)
      else PullSteps stream)"

text \<open>The requests pending on a reader, of either kind.\<close>

fun pending_requests :: "ReadableStreamReader \<Rightarrow> nat list" where
  "pending_requests (ReadableStreamDefaultReader a c rs) = rs"
| "pending_requests (ReadableStreamBYOBReader a c rs) = rs"

text \<open>
  Pending requests are pending promises, each its own, and none is the reader's closed
  signal.
\<close>

definition requests_pending :: "ReadableStreamReader \<Rightarrow> heap \<Rightarrow> bool" where
  "requests_pending r h =
     ((\<forall>q\<in>set (pending_requests r). cells h q = Pending) \<and>
      cells h (closedPromise r) = Pending \<and>
      closedPromise r \<notin> set (pending_requests r))"

section \<open>readable-stream/tee: ReadableStreamTee\<close>

text \<open>
  The operations on a branch's controller (\<^verbatim>\<open>readable-stream/default-controller\<close>) are not
  among the sources: each call is recorded, in order, on the branch it was made on.
\<close>

datatype ControllerCall =
    DefaultControllerEnqueue val
  | DefaultControllerClose
  | DefaultControllerError val

text \<open>
  The variables of the closure that \<^verbatim>\<open>ReadableStreamTee\<close> creates, the source stream with
  the store, and what the closure has done to the outside: \<open>reads\<close> counts the calls of
  \<^verbatim>\<open>ReadableStreamDefaultReaderRead(reader)\<close>, \<open>settled\<close> how many of those reads have
  settled and had their reaction run, \<open>cancels\<close> lists the calls of
  \<^verbatim>\<open>ReadableStreamCancel(stream, compositeReason)\<close> with the promise each returned.
  \<open>cancelPromise\<close> names the promise made by \<^verbatim>\<open>new Promise\<close>; \<open>cancelPromise_resolution\<close> is
  what its resolve function \<^verbatim>\<open>resolveCancelPromise\<close> was first called with.
\<close>

record Tee =
  stream :: ReadableStream
  promises :: heap
  reading :: bool
  canceled1 :: bool
  canceled2 :: bool
  reason1 :: val
  reason2 :: val
  cancelPromise :: nat
  cancelPromise_resolution :: "promise option"
  reads :: nat
  settled :: nat
  branch1 :: "ControllerCall list"
  branch2 :: "ControllerCall list"
  cancels :: "(val \<times> promise) list"

text \<open>
  The closure as \<^verbatim>\<open>ReadableStreamTee\<close> leaves it, for a source \<open>stream\<close> that
  \<^verbatim>\<open>AcquireReadableStreamDefaultReader\<close> has locked and a new cell \<open>c\<close> for the cancel promise:
  \<^verbatim>\<open>
  let reading = false;
  let canceled1 = false;
  let canceled2 = false;
  let reason1: any;
  let reason2: any;
  const cancelPromise = new Promise<any>(resolve => { resolveCancelPromise = resolve; });
  branch1 = CreateReadableStream(startAlgorithm, pullAlgorithm, cancel1Algorithm);
  branch2 = CreateReadableStream(startAlgorithm, pullAlgorithm, cancel2Algorithm);
  \<close>
\<close>

definition ReadableStreamTee :: "ReadableStream \<Rightarrow> heap \<Rightarrow> nat \<Rightarrow> Tee" where
  "ReadableStreamTee stream' h c =
     \<lparr>stream = stream', promises = h, reading = False, canceled1 = False, canceled2 = False,
      reason1 = JUndefined, reason2 = JUndefined, cancelPromise = c,
      cancelPromise_resolution = None, reads = 0, settled = 0, branch1 = [], branch2 = [],
      cancels = []\<rparr>"

text \<open>
  \<^verbatim>\<open>
  function pullAlgorithm(): Promise<void> {
    if (reading === true) { return Promise.resolve(); }
    reading = true;
    const readPromise = ReadableStreamDefaultReaderRead(reader).then(result => { ... });
    readPromise.catch(rethrowAssertionErrorRejection);
    return Promise.resolve();
  }
  \<close>
\<close>

definition pullAlgorithm :: "Tee \<Rightarrow> promise \<times> Tee" where
  "pullAlgorithm t =
     (if reading t then (PromiseResolved JUndefined, t)
      else
        let t = t\<lparr>reading := True\<rparr>;
            t = t\<lparr>reads := Suc (reads t)\<rparr>
        in (PromiseResolved JUndefined, t))"

text \<open>
  Taking a chunk, a branch's controller may find that it should pull and call its pull
  algorithm, which is \<^verbatim>\<open>pullAlgorithm\<close>, before it returns (4.1: "after every enqueue ...
  the controller re-evaluates whether to invoke the producer's pull algorithm").
  \<open>pulls\<close> says whether it does.
\<close>

definition ReadableStreamDefaultControllerEnqueue1 :: "val \<Rightarrow> bool \<Rightarrow> Tee \<Rightarrow> Tee" where
  "ReadableStreamDefaultControllerEnqueue1 chunk pulls t =
     (let t = t\<lparr>branch1 := branch1 t @ [DefaultControllerEnqueue chunk]\<rparr>
      in if pulls then snd (pullAlgorithm t) else t)"

definition ReadableStreamDefaultControllerEnqueue2 :: "val \<Rightarrow> bool \<Rightarrow> Tee \<Rightarrow> Tee" where
  "ReadableStreamDefaultControllerEnqueue2 chunk pulls t =
     (let t = t\<lparr>branch2 := branch2 t @ [DefaultControllerEnqueue chunk]\<rparr>
      in if pulls then snd (pullAlgorithm t) else t)"

definition ReadableStreamDefaultControllerClose1 :: "Tee \<Rightarrow> Tee" where
  "ReadableStreamDefaultControllerClose1 t = t\<lparr>branch1 := branch1 t @ [DefaultControllerClose]\<rparr>"

definition ReadableStreamDefaultControllerClose2 :: "Tee \<Rightarrow> Tee" where
  "ReadableStreamDefaultControllerClose2 t = t\<lparr>branch2 := branch2 t @ [DefaultControllerClose]\<rparr>"

definition ReadableStreamDefaultControllerError1 :: "val \<Rightarrow> Tee \<Rightarrow> Tee" where
  "ReadableStreamDefaultControllerError1 r t = t\<lparr>branch1 := branch1 t @ [DefaultControllerError r]\<rparr>"

definition ReadableStreamDefaultControllerError2 :: "val \<Rightarrow> Tee \<Rightarrow> Tee" where
  "ReadableStreamDefaultControllerError2 r t = t\<lparr>branch2 := branch2 t @ [DefaultControllerError r]\<rparr>"

text \<open>
  The reaction to a read that fulfilled with \<open>result\<close>:
  \<^verbatim>\<open>
  result => {
    reading = false;
    const done = result.done;
    if (done === true) {
      if (canceled1 === false) { ReadableStreamDefaultControllerClose(branch1._readableStreamController); }
      if (canceled2 === false) { ReadableStreamDefaultControllerClose(branch2._readableStreamController); }
      return;
    }
    const value = result.value!;
    const value1 = value;
    const value2 = value;
    if (canceled1 === false) { ReadableStreamDefaultControllerEnqueue(branch1._readableStreamController, value1); }
    if (canceled2 === false) { ReadableStreamDefaultControllerEnqueue(branch2._readableStreamController, value2); }
  }
  \<close>
\<close>

definition readFulfilled :: "val \<Rightarrow> bool \<Rightarrow> bool \<Rightarrow> Tee \<Rightarrow> Tee" where
  "readFulfilled result pulls1 pulls2 t =
     (let t = t\<lparr>reading := False\<rparr>;
          done' = Get result ''done''
      in if done' = JBoolean True then
           let t = (if canceled1 t = False then ReadableStreamDefaultControllerClose1 t else t);
               t = (if canceled2 t = False then ReadableStreamDefaultControllerClose2 t else t)
           in t
         else
           let value = Get result ''value'';
               value1 = value;
               value2 = value;
               t = (if canceled1 t = False
                    then ReadableStreamDefaultControllerEnqueue1 value1 pulls1 t else t);
               t = (if canceled2 t = False
                    then ReadableStreamDefaultControllerEnqueue2 value2 pulls2 t else t)
           in t)"

text \<open>\<^verbatim>\<open>ReadableStreamCancel(stream, compositeReason)\<close> on the source, recorded.\<close>

definition ReadableStreamCancel_source :: "val \<Rightarrow> Tee \<Rightarrow> promise \<times> Tee" where
  "ReadableStreamCancel_source compositeReason t =
     (case ReadableStreamCancel (stream t) compositeReason (promises t) of
        (cancelResult, s, h) \<Rightarrow>
          (cancelResult,
           t\<lparr>stream := s, promises := h,
             cancels := cancels t @ [(compositeReason, cancelResult)]\<rparr>))"

text \<open>The resolve function of the cancel promise: only the first call resolves it.\<close>

definition resolveCancelPromise :: "promise \<Rightarrow> Tee \<Rightarrow> Tee" where
  "resolveCancelPromise p t =
     (case cancelPromise_resolution t of
        None \<Rightarrow> t\<lparr>cancelPromise_resolution := Some p\<rparr>
      | Some q \<Rightarrow> t)"

text \<open>
  \<^verbatim>\<open>createArrayFromList\<close> is imported from \<^verbatim>\<open>helpers\<close>, which is not among the sources; it is
  taken to be \<^verbatim>\<open>CreateArrayFromList\<close> of \<^verbatim>\<open>abstract-ops/ecmascript\<close>.
\<close>

definition createArrayFromList :: "val list \<Rightarrow> val" where
  "createArrayFromList elements = CreateArrayFromList elements"

text \<open>
  \<^verbatim>\<open>
  function cancel1Algorithm(reason: any): Promise<void> {
    canceled1 = true;
    reason1 = reason;
    if (canceled2 === true) {
      const compositeReason = createArrayFromList([reason1, reason2]);
      const cancelResult = ReadableStreamCancel(stream, compositeReason);
      resolveCancelPromise(cancelResult);
    }
    return cancelPromise;
  }
  \<close>
\<close>

definition cancel1Algorithm :: "val \<Rightarrow> Tee \<Rightarrow> promise \<times> Tee" where
  "cancel1Algorithm reason t =
     (let t = t\<lparr>canceled1 := True\<rparr>;
          t = t\<lparr>reason1 := reason\<rparr>;
          t = (if canceled2 t = True then
                 let compositeReason = createArrayFromList [reason1 t, reason2 t];
                     (cancelResult, t) = ReadableStreamCancel_source compositeReason t
                 in resolveCancelPromise cancelResult t
               else t)
      in (PromiseCell (cancelPromise t), t))"

text \<open>
  \<^verbatim>\<open>
  function cancel2Algorithm(reason: any): Promise<void> {
    canceled2 = true;
    reason2 = reason;
    if (canceled1 === true) {
      const compositeReason = createArrayFromList([reason1, reason2]);
      const cancelResult = ReadableStreamCancel(stream, compositeReason);
      resolveCancelPromise(cancelResult);
    }
    return cancelPromise;
  }
  \<close>
\<close>

definition cancel2Algorithm :: "val \<Rightarrow> Tee \<Rightarrow> promise \<times> Tee" where
  "cancel2Algorithm reason t =
     (let t = t\<lparr>canceled2 := True\<rparr>;
          t = t\<lparr>reason2 := reason\<rparr>;
          t = (if canceled1 t = True then
                 let compositeReason = createArrayFromList [reason1 t, reason2 t];
                     (cancelResult, t) = ReadableStreamCancel_source compositeReason t
                 in resolveCancelPromise cancelResult t
               else t)
      in (PromiseCell (cancelPromise t), t))"

text \<open>
  \<^verbatim>\<open>
  reader._closedPromise.catch((r: any) => {
    ReadableStreamDefaultControllerError(branch1._readableStreamController, r);
    ReadableStreamDefaultControllerError(branch2._readableStreamController, r);
  });
  \<close>
\<close>

definition closedRejected :: "val \<Rightarrow> Tee \<Rightarrow> Tee" where
  "closedRejected r t =
     (let t = ReadableStreamDefaultControllerError1 r t;
          t = ReadableStreamDefaultControllerError2 r t
      in t)"

text \<open>
  What can happen to the closure, one event at a time: a branch's controller calls the
  pull algorithm; an outstanding read of the shared reader fulfills (and its reaction
  runs) or rejects (the reaction does not run); a branch's controller calls its cancel
  algorithm; the reader's closed promise rejects; the source stream and the store change
  outside the closure.
\<close>

datatype event =
    Pull
  | ReadFulfills val bool bool
  | ReadRejects val
  | Cancel1 val
  | Cancel2 val
  | ClosedRejects val
  | Outside ReadableStream heap

fun step :: "event \<Rightarrow> Tee \<Rightarrow> Tee" where
  "step Pull t = snd (pullAlgorithm t)"
| "step (ReadFulfills result pulls1 pulls2) t =
     (if settled t < reads t
      then readFulfilled result pulls1 pulls2 (t\<lparr>settled := Suc (settled t)\<rparr>) else t)"
| "step (ReadRejects e) t =
     (if settled t < reads t then t\<lparr>settled := Suc (settled t)\<rparr> else t)"
| "step (Cancel1 reason) t = snd (cancel1Algorithm reason t)"
| "step (Cancel2 reason) t = snd (cancel2Algorithm reason t)"
| "step (ClosedRejects r) t = closedRejected r t"
| "step (Outside s h) t = t\<lparr>stream := s, promises := h\<rparr>"

definition run :: "event list \<Rightarrow> Tee \<Rightarrow> Tee" where
  "run evs t = fold step evs t"



text \<open>The reads of the shared reader that are outstanding.\<close>

definition outstanding :: "Tee \<Rightarrow> nat" where
  "outstanding t = reads t - settled t"

section \<open>readable-stream: the constructor\<close>











section \<open>readable-stream: pipeThrough and pipeTo\<close>

text \<open>
  Modelled from the spec: \<^verbatim>\<open>writable-stream\<close> and \<^verbatim>\<open>abort-signal\<close> are not among the sources.
  A writable stream has a lock holder, "exclusive; at most one at a time" (3), and is
  locked when it has one; the signal is an "abort token" (5).
\<close>

record WritableStream =
  writer :: "nat option"




text \<open>
  What a caller can pass where a stream is expected: a readable stream, a writable
  stream, or another value. The brand checks \<^verbatim>\<open>IsReadableStream\<close> (an object with its own
  \<^verbatim>\<open>_readableStreamController\<close>) and \<^verbatim>\<open>IsWritableStream\<close> tell them apart.
\<close>

datatype arg = AReadableStream ReadableStream | AWritableStream WritableStream | Other val


fun IsWritableStream :: "arg \<Rightarrow> bool" where
  "IsWritableStream (AWritableStream w) = True"
| "IsWritableStream x = False"











section \<open>Predicates of the theorems\<close>



text \<open>
  The reads of the shared reader: at most one is outstanding, and while one is, the
  closure's \<open>reading\<close> flag is set.
\<close>

definition read_inv :: "Tee \<Rightarrow> bool" where
  "read_inv t =
     (settled t \<le> reads t \<and> reads t \<le> Suc (settled t) \<and> (settled t < reads t \<longrightarrow> reading t))"

section \<open>Theorems\<close>

subsection \<open>Numbers and buffers\<close>

text \<open>
  C8, as the code has it: IsNonNegativeNumber returns true exactly for the numbers that
  are not NaN and not less than zero. These are the finite numbers from zero up and
  positive infinity; NaN, every negative number (negative infinity too) and every
  non-number are refused. There is no finiteness test.
\<close>

theorem IsNonNegativeNumber_accepts:
  "IsNonNegativeNumber v \<longleftrightarrow>
     v = JNumber PosInfinity \<or> (\<exists>x. v = JNumber (Finite x) \<and> 0 \<le> x)"
proof (cases v)
  case (JNumber n)
  then show ?thesis
    by (cases n) (simp_all add: IsNonNegativeNumber_def NumberIsNaN_def less_than_zero_def not_less)
qed (simp_all add: IsNonNegativeNumber_def)

text \<open>
  C8 as stated fails at positive infinity: the code accepts it, and it is not finite.
\<close>

theorem IsNonNegativeNumber_infinity_counterexample:
  "IsNonNegativeNumber (JNumber PosInfinity) \<and>
   \<not> finite_non_negative_number (JNumber PosInfinity)"
  by (simp add: IsNonNegativeNumber_def finite_non_negative_number_def NumberIsNaN_def
      less_than_zero_def)

text \<open>
  C10: IsDetachedBuffer is true exactly when the byte length is zero. So a buffer that
  was never transferred and holds no bytes is reported detached and not transferable,
  the same answers as for any buffer whose data block was transferred away.
\<close>

theorem empty_buffer_reported_detached:
  "(IsDetachedBuffer b \<longleftrightarrow> byteLength b = 0) \<and>
   (ArrayBufferData b = Some [] \<longrightarrow>
      IsDetachedBuffer b \<and> \<not> CanTransferArrayBuffer b \<and>
      (\<forall>d. ArrayBufferData d = None \<longrightarrow>
         IsDetachedBuffer d = IsDetachedBuffer b \<and>
         CanTransferArrayBuffer d = CanTransferArrayBuffer b))"
  by (simp add: IsDetachedBuffer_def CanTransferArrayBuffer_def byteLength_def)

theorem empty_buffer_reported_detached_witness:
  "ArrayBufferData \<lparr>ArrayBufferData = Some []\<rparr> = Some [] \<and>
   IsDetachedBuffer \<lparr>ArrayBufferData = Some []\<rparr> \<and>
   \<not> CanTransferArrayBuffer \<lparr>ArrayBufferData = Some []\<rparr> \<and>
   IsDetachedBuffer \<lparr>ArrayBufferData = None\<rparr> = IsDetachedBuffer \<lparr>ArrayBufferData = Some []\<rparr>"
proof -
  have e: "ArrayBufferData \<lparr>ArrayBufferData = Some []\<rparr> = Some []"
    and d: "ArrayBufferData \<lparr>ArrayBufferData = None\<rparr> = None"
    by simp_all
  from empty_buffer_reported_detached [of "\<lparr>ArrayBufferData = Some []\<rparr>"] e d
  show ?thesis by blast
qed

subsection \<open>Settling a queue of requests\<close>

lemma cells_settle:
  "cells (settle p x h) q = (if q = p \<and> cells h p = Pending then x else cells h q)"
  by (simp add: settle_def)

lemma trace_settle: "trace (settle p x h) = trace h @ [(p, x)]"
  by (simp add: settle_def)

lemma cells_fold_settle:
  "cells (fold (\<lambda>p. settle p x) ps h) q =
     (if q \<in> set ps \<and> cells h q = Pending then x else cells h q)"
  by (induction ps arbitrary: h) (auto simp: settle_def)

lemma trace_fold_settle:
  "trace (fold (\<lambda>p. settle p x) ps h) = trace h @ map (\<lambda>p. (p, x)) ps"
  by (induction ps arbitrary: h) (auto simp: settle_def)

lemma resolve_with_settle: "resolve_with v = (\<lambda>p. settle p (Fulfilled v))"
  by (simp add: fun_eq_iff resolve_with_def)

lemma reject_with_settle: "reject_with e = (\<lambda>p. settle p (Rejected e))"
  by (simp add: fun_eq_iff reject_with_def)

subsection \<open>Closing, erroring and cancelling a readable stream\<close>

text \<open>
  C3: closing a readable stream whose default reader holds the pending read requests
  \<open>reqs\<close> (any number of them, oldest first) resolves each of them, in that order, with
  \<^verbatim>\<open>{ value: undefined, done: true }\<close>, leaves the reader's queue empty, and then
  fulfills the reader's closed signal; no other promise is touched. A read issued
  after the close is answered with the same end-of-sequence result, already
  fulfilled, and the controller's pull steps are not invoked.
\<close>

theorem ReadableStreamClose_fulfills_pending_reads:
  assumes "state s = readable"
    and "reader s = Some (ReadableStreamDefaultReader a c reqs)"
    and "\<forall>r\<in>set reqs. cells h r = Pending"
    and "cells h c = Pending" and "c \<notin> set reqs"
  shows "case ReadableStreamClose s h of (s', h') \<Rightarrow>
      state s' = closed \<and>
      (\<forall>r\<in>set reqs. cells h' r =
          Fulfilled (JObject [(''value'', JUndefined), (''done'', JBoolean True)])) \<and>
      trace h' = trace h @
        map (\<lambda>r. (r, Fulfilled (JObject [(''value'', JUndefined), (''done'', JBoolean True)])))
          reqs @
        [(c, Fulfilled JUndefined)] \<and>
      reader s' = Some (ReadableStreamDefaultReader a c []) \<and>
      cells h' c = Fulfilled JUndefined \<and>
      (\<forall>p. p \<notin> set reqs \<and> p \<noteq> c \<longrightarrow> cells h' p = cells h p) \<and>
      (case ReadableStreamDefaultReaderRead s' of (p, s'') \<Rightarrow>
         p = promiseResolvedWith (JObject [(''value'', JUndefined), (''done'', JBoolean True)]) \<and>
         promise_state (cells h') p =
           Fulfilled (JObject [(''value'', JUndefined), (''done'', JBoolean True)]) \<and>
         PullSteps_calls (readableStreamController s'') =
           PullSteps_calls (readableStreamController s) \<and>
         state s'' = closed)"
  using assms
  by (auto simp: ReadableStreamClose_def ReadableStreamDefaultReaderRead_def Let_def
      defaultReaderClosedPromiseResolve_def resolve_with_settle cells_settle trace_settle
      cells_fold_settle trace_fold_settle ReadableStreamCreateReadResult_def
      promiseResolvedWith_def)

theorem ReadableStreamClose_fulfills_pending_reads_witness:
  "let s = \<lparr>state = readable, reader = Some (ReadableStreamDefaultReader True 0 [1, 2]),
             storedError = JUndefined, disturbed = False,
             readableStreamController =
               \<lparr>CancelSteps_result = (\<lambda>r. PromiseCell 9), CancelSteps_calls = [],
                PullSteps_result = PromiseCell 8, PullSteps_calls = 0\<rparr>\<rparr>;
       h = \<lparr>cells = (\<lambda>n. Pending), trace = []\<rparr>;
       eos = JObject [(''value'', JUndefined), (''done'', JBoolean True)]
   in state s = readable \<and>
      (case ReadableStreamClose s h of (s', h') \<Rightarrow>
         state s' = closed \<and>
         cells h' 1 = Fulfilled eos \<and> cells h' 2 = Fulfilled eos \<and>
         trace h' = [(1, Fulfilled eos), (2, Fulfilled eos), (0, Fulfilled JUndefined)] \<and>
         reader s' = Some (ReadableStreamDefaultReader True 0 []) \<and>
         cells h' 0 = Fulfilled JUndefined \<and>
         cells h' 3 = Pending \<and>
         fst (ReadableStreamDefaultReaderRead s') = promiseResolvedWith eos \<and>
         PullSteps_calls (readableStreamController (snd (ReadableStreamDefaultReaderRead s'))) = 0)"
  using ReadableStreamClose_fulfills_pending_reads
    [where s = "\<lparr>state = readable, reader = Some (ReadableStreamDefaultReader True 0 [1, 2]),
           storedError = JUndefined, disturbed = False,
           readableStreamController =
             \<lparr>CancelSteps_result = (\<lambda>r. PromiseCell 9), CancelSteps_calls = [],
              PullSteps_result = PromiseCell 8, PullSteps_calls = 0\<rparr>\<rparr>"
      and a = True and c = 0 and reqs = "[1, 2]"
      and h = "\<lparr>cells = (\<lambda>n. Pending), trace = []\<rparr>"]
  by (simp add: Let_def split: prod.splits)

text \<open>
  C4: erroring a readable stream with \<open>e\<close> sets its state to errored and its stored
  error to \<open>e\<close>. With a reader, of either kind, every pending request of the reader is
  rejected with \<open>e\<close>, in order, the reader's queue is left empty, and then the reader's
  closed signal is rejected with \<open>e\<close>; every pending request ends rejected with \<open>e\<close>
  and with nothing else, and no other promise is touched. Without a reader nothing is
  settled.
\<close>

theorem ReadableStreamError_rejects_pending:
  assumes "state s = readable"
  shows "case ReadableStreamError s e h of (s', h') \<Rightarrow>
      state s' = errored \<and> storedError s' = e \<and>
      (case reader s of
         None \<Rightarrow> reader s' = None \<and> h' = h
       | Some r \<Rightarrow>
          trace h' = trace h @ map (\<lambda>q. (q, Rejected e)) (pending_requests r) @
             [(closedPromise r, Rejected e)] \<and>
          (\<exists>r'. reader s' = Some r' \<and> pending_requests r' = [] \<and>
             IsReadableStreamDefaultReader r' = IsReadableStreamDefaultReader r \<and>
             closedPromise r' = closedPromise r) \<and>
          (requests_pending r h \<longrightarrow>
             (\<forall>q\<in>set (pending_requests r). cells h' q = Rejected e) \<and>
             cells h' (closedPromise r) = Rejected e \<and>
             (\<forall>p. p \<notin> set (pending_requests r) \<and> p \<noteq> closedPromise r \<longrightarrow>
                cells h' p = cells h p)))"
proof (cases "reader s")
  case None
  then show ?thesis by (simp add: ReadableStreamError_def)
next
  case (Some r)
  then show ?thesis
    by (cases r)
      (auto simp: ReadableStreamError_def Let_def requests_pending_def
        defaultReaderClosedPromiseReject_def reject_with_settle cells_settle trace_settle
        cells_fold_settle trace_fold_settle)
qed

theorem ReadableStreamError_rejects_pending_witness:
  "let s = \<lparr>state = readable, reader = Some (ReadableStreamBYOBReader True 5 [3, 4]),
             storedError = JUndefined, disturbed = False,
             readableStreamController =
               \<lparr>CancelSteps_result = (\<lambda>r. PromiseCell 9), CancelSteps_calls = [],
                PullSteps_result = PromiseCell 8, PullSteps_calls = 0\<rparr>\<rparr>;
       h = \<lparr>cells = (\<lambda>n. Pending), trace = []\<rparr>;
       e = JString ''boom''
   in state s = readable \<and>
      requests_pending (ReadableStreamBYOBReader True 5 [3, 4]) h \<and>
      (case ReadableStreamError s e h of (s', h') \<Rightarrow>
         state s' = errored \<and> storedError s' = e \<and>
         trace h' = [(3, Rejected e), (4, Rejected e), (5, Rejected e)] \<and>
         cells h' 3 = Rejected e \<and> cells h' 4 = Rejected e \<and> cells h' 5 = Rejected e \<and>
         cells h' 6 = Pending)"
proof -
  have p: "requests_pending (ReadableStreamBYOBReader True 5 [3, 4])
             \<lparr>cells = (\<lambda>n. Pending), trace = []\<rparr>"
    by (simp add: requests_pending_def)
  from p ReadableStreamError_rejects_pending
    [where s = "\<lparr>state = readable, reader = Some (ReadableStreamBYOBReader True 5 [3, 4]),
           storedError = JUndefined, disturbed = False,
           readableStreamController =
             \<lparr>CancelSteps_result = (\<lambda>r. PromiseCell 9), CancelSteps_calls = [],
              PullSteps_result = PromiseCell 8, PullSteps_calls = 0\<rparr>\<rparr>"
      and e = "JString ''boom''" and h = "\<lparr>cells = (\<lambda>n. Pending), trace = []\<rparr>"]
  show ?thesis by (simp add: Let_def split: prod.splits)
qed

text \<open>
  C5: cancelling a readable stream that is in the readable state closes the stream
  first, whatever its controller holds, and then invokes the controller's cancel steps
  once, with the reason given, on the stream already closed. The promise returned is
  \<^verbatim>\<open>transformPromiseWith(sourceCancelPromise, noop)\<close>: pending while the cancel steps'
  promise is pending, fulfilled with undefined once that promise is fulfilled, with
  whatever value, and rejected with the same cause once that promise is rejected.
\<close>

theorem ReadableStreamCancel_readable:
  assumes "state s = readable"
  shows "case ReadableStreamCancel s reason h of (p, s', h') \<Rightarrow>
      state s' = closed \<and>
      (s', h') = (case ReadableStreamClose (s\<lparr>disturbed := True\<rparr>) h of
                   (s1, h1) \<Rightarrow> (snd (CancelSteps s1 reason), h1)) \<and>
      CancelSteps_calls (readableStreamController s') =
        CancelSteps_calls (readableStreamController s) @ [(reason, closed)] \<and>
      p = transformPromiseWith (CancelSteps_result (readableStreamController s) reason) noop \<and>
      (\<forall>c. case promise_state c (CancelSteps_result (readableStreamController s) reason) of
              Pending \<Rightarrow> promise_state c p = Pending
            | Fulfilled v \<Rightarrow> promise_state c p = Fulfilled JUndefined
            | Rejected e \<Rightarrow> promise_state c p = Rejected e)"
  using assms
  by (auto simp: ReadableStreamCancel_def ReadableStreamClose_def CancelSteps_def Let_def
      transformPromiseWith_def noop_def split: option.splits settlement.splits)

theorem ReadableStreamCancel_readable_witness:
  "let s = \<lparr>state = readable, reader = None, storedError = JUndefined, disturbed = False,
             readableStreamController =
               \<lparr>CancelSteps_result = (\<lambda>r. PromiseCell 9), CancelSteps_calls = [],
                PullSteps_result = PromiseCell 8, PullSteps_calls = 0\<rparr>\<rparr>;
       h = \<lparr>cells = (\<lambda>n. Pending), trace = []\<rparr>
   in state s = readable \<and>
      (case ReadableStreamCancel s (JString ''r'') h of (p, s', h') \<Rightarrow>
         state s' = closed \<and>
         CancelSteps_calls (readableStreamController s') = [(JString ''r'', closed)] \<and>
         promise_state (\<lambda>n. Pending) p = Pending \<and>
         promise_state (\<lambda>n. Fulfilled (JNumber (Finite 42))) p = Fulfilled JUndefined \<and>
         promise_state (\<lambda>n. Rejected (JString ''e'')) p = Rejected (JString ''e''))"
proof -
  let ?s = "\<lparr>state = readable, reader = None, storedError = JUndefined, disturbed = False,
             readableStreamController =
               \<lparr>CancelSteps_result = (\<lambda>r. PromiseCell 9), CancelSteps_calls = [],
                PullSteps_result = PromiseCell 8, PullSteps_calls = 0\<rparr>\<rparr>"
  let ?h = "\<lparr>cells = (\<lambda>n. Pending), trace = []\<rparr>"
  have r: "state ?s = readable" by simp
  obtain p s' h' where c: "ReadableStreamCancel ?s (JString ''r'') ?h = (p, s', h')"
    by (cases "ReadableStreamCancel ?s (JString ''r'') ?h") auto
  from ReadableStreamCancel_readable [OF r, where reason = "JString ''r''" and h = ?h] c
  have "state s' = closed"
    and "CancelSteps_calls (readableStreamController s') = [(JString ''r'', closed)]"
    and "p = transformPromiseWith (PromiseCell 9) noop"
    and "\<forall>c. case promise_state c (PromiseCell 9) of
              Pending \<Rightarrow> promise_state c p = Pending
            | Fulfilled v \<Rightarrow> promise_state c p = Fulfilled JUndefined
            | Rejected e \<Rightarrow> promise_state c p = Rejected e"
    by simp_all
  moreover from this(4) have "promise_state (\<lambda>n. Pending) p = Pending"
    and "promise_state (\<lambda>n. Fulfilled (JNumber (Finite 42))) p = Fulfilled JUndefined"
    and "promise_state (\<lambda>n. Rejected (JString ''e'')) p = Rejected (JString ''e'')"
    by (auto dest: spec [of _ "\<lambda>n. Pending"] spec [of _ "\<lambda>n. Fulfilled (JNumber (Finite 42))"]
        spec [of _ "\<lambda>n. Rejected (JString ''e'')"])
  ultimately show ?thesis using c by (simp add: Let_def)
qed

text \<open>
  C9: ReadableStreamCancel sets the stream's disturbed flag in every state of the
  stream and whatever the flag was. On a stream that is closed or errored it changes
  nothing else, does not invoke the controller's cancel steps, and returns at once: a
  promise fulfilled with undefined for a closed stream, one rejected with the stored
  error for an errored stream.
\<close>

theorem ReadableStreamCancel_disturbs:
  "case ReadableStreamCancel s reason h of (p, s', h') \<Rightarrow>
      disturbed s' \<and>
      (state s \<noteq> readable \<longrightarrow>
         s' = s\<lparr>disturbed := True\<rparr> \<and> h' = h \<and>
         CancelSteps_calls (readableStreamController s') =
           CancelSteps_calls (readableStreamController s) \<and>
         p = (if state s = closed then promiseResolvedWith JUndefined
              else promiseRejectedWith (storedError s)))"
  by (cases "state s")
    (auto simp: ReadableStreamCancel_def ReadableStreamClose_def CancelSteps_def Let_def
      split: option.splits)

theorem ReadableStreamCancel_disturbs_witness:
  "let s = \<lparr>state = errored, reader = None, storedError = JString ''boom'', disturbed = False,
             readableStreamController =
               \<lparr>CancelSteps_result = (\<lambda>r. PromiseCell 9), CancelSteps_calls = [],
                PullSteps_result = PromiseCell 8, PullSteps_calls = 0\<rparr>\<rparr>;
       h = \<lparr>cells = (\<lambda>n. Pending), trace = []\<rparr>
   in state s \<noteq> readable \<and> \<not> disturbed s \<and>
      (case ReadableStreamCancel s (JString ''r'') h of (p, s', h') \<Rightarrow>
         disturbed s' \<and> state s' = errored \<and> h' = h \<and>
         CancelSteps_calls (readableStreamController s') = [] \<and>
         p = promiseRejectedWith (JString ''boom''))"
  using ReadableStreamCancel_disturbs
    [where s = "\<lparr>state = errored, reader = None, storedError = JString ''boom'', disturbed = False,
           readableStreamController =
             \<lparr>CancelSteps_result = (\<lambda>r. PromiseCell 9), CancelSteps_calls = [],
              PullSteps_result = PromiseCell 8, PullSteps_calls = 0\<rparr>\<rparr>"
      and reason = "JString ''r''" and h = "\<lparr>cells = (\<lambda>n. Pending), trace = []\<rparr>"]
  by (simp add: Let_def split: prod.splits)

subsection \<open>Teeing: the cancel algorithms\<close>





















subsection \<open>Teeing: the pull algorithm\<close>

lemma read_inv_step: "read_inv t \<Longrightarrow> read_inv (step e t)"
proof (cases e)
  case (Cancel1 r)
  then show "read_inv t \<Longrightarrow> read_inv (step e t)"
    by (auto simp: read_inv_def cancel1Algorithm_def Let_def resolveCancelPromise_def
        ReadableStreamCancel_source_def split: prod.splits option.splits)
next
  case (Cancel2 r)
  then show "read_inv t \<Longrightarrow> read_inv (step e t)"
    by (auto simp: read_inv_def cancel2Algorithm_def Let_def resolveCancelPromise_def
        ReadableStreamCancel_source_def split: prod.splits option.splits)
next
  case (ReadFulfills result p1 p2)
  then show "read_inv t \<Longrightarrow> read_inv (step e t)"
    by (auto simp: read_inv_def readFulfilled_def pullAlgorithm_def Let_def
      ReadableStreamDefaultControllerEnqueue1_def ReadableStreamDefaultControllerEnqueue2_def
      ReadableStreamDefaultControllerClose1_def ReadableStreamDefaultControllerClose2_def)
qed (auto simp: read_inv_def pullAlgorithm_def closedRejected_def Let_def
      ReadableStreamDefaultControllerError1_def ReadableStreamDefaultControllerError2_def)

lemma read_inv_run: "read_inv t \<Longrightarrow> read_inv (run evs t)"
  unfolding run_def by (induction evs arbitrary: t) (simp_all add: read_inv_step)

lemma pull_while_reading:
  "reading t \<Longrightarrow> pullAlgorithm t = (PromiseResolved JUndefined, t)"
  by (simp add: pullAlgorithm_def)

lemma pull_not_reading:
  "\<not> reading t \<Longrightarrow>
   pullAlgorithm t = (PromiseResolved JUndefined, t\<lparr>reading := True, reads := Suc (reads t)\<rparr>)"
  by (simp add: pullAlgorithm_def Let_def)

lemma pull_keeps_branches:
  "branch1 (snd (pullAlgorithm t)) = branch1 t" "branch2 (snd (pullAlgorithm t)) = branch2 t"
  "canceled1 (snd (pullAlgorithm t)) = canceled1 t"
  "canceled2 (snd (pullAlgorithm t)) = canceled2 t"
  by (simp_all add: pullAlgorithm_def Let_def)

lemma readFulfilled_chunk:
  "Get result ''done'' \<noteq> JBoolean True \<Longrightarrow>
   branch1 (readFulfilled result p1 p2 t) =
     (if canceled1 t then branch1 t
      else branch1 t @ [DefaultControllerEnqueue (Get result ''value'')]) \<and>
   branch2 (readFulfilled result p1 p2 t) =
     (if canceled2 t then branch2 t
      else branch2 t @ [DefaultControllerEnqueue (Get result ''value'')])"
  by (simp add: readFulfilled_def Let_def pull_keeps_branches
      ReadableStreamDefaultControllerEnqueue1_def ReadableStreamDefaultControllerEnqueue2_def)

lemma readFulfilled_done:
  "Get result ''done'' = JBoolean True \<Longrightarrow>
   branch1 (readFulfilled result p1 p2 t) =
     (if canceled1 t then branch1 t else branch1 t @ [DefaultControllerClose]) \<and>
   branch2 (readFulfilled result p1 p2 t) =
     (if canceled2 t then branch2 t else branch2 t @ [DefaultControllerClose]) \<and>
   reads (readFulfilled result p1 p2 t) = reads t"
  by (simp add: readFulfilled_def Let_def
      ReadableStreamDefaultControllerClose1_def ReadableStreamDefaultControllerClose2_def)

text \<open>
  C2: in every run of the closure from a state with at most one read outstanding (as
  \<^verbatim>\<open>ReadableStreamTee\<close> leaves it, with none), at most one read of the shared reader is
  outstanding at any time, and while one is, the pull algorithm returns without
  issuing a read and without changing anything; when none is being read, it issues
  exactly one. The reaction to a read that fulfilled with a chunk (a result whose
  \<open>done\<close> is not true) enqueues that chunk, the \<open>value\<close> of the result, to the controller
  of each branch that has not cancelled, and makes no call on a cancelled branch; the
  reaction to a read that fulfilled with \<open>done\<close> true closes the controller of each
  branch that has not cancelled, makes no call on a cancelled branch, and issues no
  read. This holds whether or not a branch's controller calls the pull algorithm
  while it takes the chunk.
\<close>

theorem tee_pull_single_read_fans_out:
  assumes "read_inv t"
  shows "outstanding (run evs t) \<le> 1 \<and>
     (0 < outstanding (run evs t) \<longrightarrow>
        reading (run evs t) \<and>
        pullAlgorithm (run evs t) = (PromiseResolved JUndefined, run evs t)) \<and>
     (\<forall>u. reading u \<longrightarrow> pullAlgorithm u = (PromiseResolved JUndefined, u)) \<and>
     (\<forall>u. \<not> reading u \<longrightarrow>
        pullAlgorithm u =
          (PromiseResolved JUndefined, u\<lparr>reading := True, reads := Suc (reads u)\<rparr>)) \<and>
     (\<forall>u result p1 p2. Get result ''done'' \<noteq> JBoolean True \<longrightarrow>
        branch1 (readFulfilled result p1 p2 u) =
          (if canceled1 u then branch1 u
           else branch1 u @ [DefaultControllerEnqueue (Get result ''value'')]) \<and>
        branch2 (readFulfilled result p1 p2 u) =
          (if canceled2 u then branch2 u
           else branch2 u @ [DefaultControllerEnqueue (Get result ''value'')])) \<and>
     (\<forall>u result p1 p2. Get result ''done'' = JBoolean True \<longrightarrow>
        branch1 (readFulfilled result p1 p2 u) =
          (if canceled1 u then branch1 u else branch1 u @ [DefaultControllerClose]) \<and>
        branch2 (readFulfilled result p1 p2 u) =
          (if canceled2 u then branch2 u else branch2 u @ [DefaultControllerClose]) \<and>
        reads (readFulfilled result p1 p2 u) = reads u)"
proof -
  have "read_inv (run evs t)" using assms by (rule read_inv_run)
  then have "outstanding (run evs t) \<le> 1"
    and "0 < outstanding (run evs t) \<longrightarrow> reading (run evs t)"
    by (auto simp: read_inv_def outstanding_def)
  then show ?thesis
    using pull_while_reading pull_not_reading readFulfilled_chunk readFulfilled_done
    by blast
qed

theorem tee_pull_single_read_fans_out_witness:
  "let s = \<lparr>state = readable, reader = Some (ReadableStreamDefaultReader False 0 []),
             storedError = JUndefined, disturbed = False,
             readableStreamController =
               \<lparr>CancelSteps_result = (\<lambda>r. PromiseCell 9), CancelSteps_calls = [],
                PullSteps_result = PromiseCell 8, PullSteps_calls = 0\<rparr>\<rparr>;
       t = ReadableStreamTee s \<lparr>cells = (\<lambda>n. Pending), trace = []\<rparr> 7;
       chunk = JObject [(''value'', JString ''a''), (''done'', JBoolean False)];
       eos = JObject [(''value'', JUndefined), (''done'', JBoolean True)];
       evs = [Pull, Pull, Cancel2 (JString ''y''), Pull]
   in read_inv t \<and>
      outstanding (run evs t) \<le> 1 \<and>
      reads (run evs t) = 1 \<and>
      reading (run evs t) \<and> canceled2 (run evs t) \<and> \<not> canceled1 (run evs t) \<and>
      pullAlgorithm (run evs t) = (PromiseResolved JUndefined, run evs t) \<and>
      branch1 (readFulfilled chunk True True (run evs t)) =
        [DefaultControllerEnqueue (JString ''a'')] \<and>
      branch2 (readFulfilled chunk True True (run evs t)) = [] \<and>
      branch1 (readFulfilled eos False False (run evs t)) = [DefaultControllerClose] \<and>
      branch2 (readFulfilled eos False False (run evs t)) = []"
proof -
  let ?s = "\<lparr>state = readable, reader = Some (ReadableStreamDefaultReader False 0 []),
             storedError = JUndefined, disturbed = False,
             readableStreamController =
               \<lparr>CancelSteps_result = (\<lambda>r. PromiseCell 9), CancelSteps_calls = [],
                PullSteps_result = PromiseCell 8, PullSteps_calls = 0\<rparr>\<rparr>"
  let ?t = "ReadableStreamTee ?s \<lparr>cells = (\<lambda>n. Pending), trace = []\<rparr> 7"
  let ?chunk = "JObject [(''value'', JString ''a''), (''done'', JBoolean False)]"
  let ?eos = "JObject [(''value'', JUndefined), (''done'', JBoolean True)]"
  let ?evs = "[Pull, Pull, Cancel2 (JString ''y''), Pull]"
  have i: "read_inv ?t" by (simp add: read_inv_def ReadableStreamTee_def)
  define T where "T = run ?evs ?t"
  have r: "T = ?t\<lparr>reading := True, reads := 1, canceled2 := True, reason2 := JString ''y''\<rparr>"
    unfolding T_def
    by (simp add: run_def pullAlgorithm_def cancel2Algorithm_def Let_def ReadableStreamTee_def)
  have f: "reading T" "canceled2 T" "\<not> canceled1 T" "reads T = 1" "branch1 T = []"
    "branch2 T = []"
    unfolding r by (simp_all add: ReadableStreamTee_def)
  have c: "Get ?chunk ''done'' \<noteq> JBoolean True" and v: "Get ?chunk ''value'' = JString ''a''"
    and e: "Get ?eos ''done'' = JBoolean True"
    by simp_all
  note th = tee_pull_single_read_fans_out [OF i, where evs = ?evs, folded T_def]
  from th have 1: "outstanding T \<le> 1" by (rule conjunct1)
  from th have p: "\<forall>u. reading u \<longrightarrow> pullAlgorithm u = (PromiseResolved JUndefined, u)"
    by (elim conjE)
  from th have ch: "\<forall>u result p1 p2. Get result ''done'' \<noteq> JBoolean True \<longrightarrow>
        branch1 (readFulfilled result p1 p2 u) =
          (if canceled1 u then branch1 u
           else branch1 u @ [DefaultControllerEnqueue (Get result ''value'')]) \<and>
        branch2 (readFulfilled result p1 p2 u) =
          (if canceled2 u then branch2 u
           else branch2 u @ [DefaultControllerEnqueue (Get result ''value'')])"
    by (elim conjE)
  from th have dn: "\<forall>u result p1 p2. Get result ''done'' = JBoolean True \<longrightarrow>
        branch1 (readFulfilled result p1 p2 u) =
          (if canceled1 u then branch1 u else branch1 u @ [DefaultControllerClose]) \<and>
        branch2 (readFulfilled result p1 p2 u) =
          (if canceled2 u then branch2 u else branch2 u @ [DefaultControllerClose]) \<and>
        reads (readFulfilled result p1 p2 u) = reads u"
    by (elim conjE)
  have 2: "pullAlgorithm T = (PromiseResolved JUndefined, T)"
    using p [rule_format, OF f(1)] .
  have 3: "branch1 (readFulfilled ?chunk True True T) = [DefaultControllerEnqueue (JString ''a'')] \<and>
      branch2 (readFulfilled ?chunk True True T) = []"
    using ch [rule_format, OF c, of True True T] f(2,3,5,6) by (simp only: v if_True if_False append_Nil)
  have 4: "branch1 (readFulfilled ?eos False False T) = [DefaultControllerClose] \<and>
      branch2 (readFulfilled ?eos False False T) = []"
    using dn [rule_format, OF e, of False False T] f(2,3,5,6) by (simp only: if_True if_False append_Nil)
  from i 1 2 3 4 f show ?thesis unfolding Let_def T_def by (intro conjI) (elim conjE, assumption)+
qed

subsection \<open>The constructor\<close>




subsection \<open>pipeThrough and pipeTo\<close>




end
